theory Spec2Isabelle
  imports Main
begin

section \<open>The ID generation request worker\<close>

text \<open>
  A shallow embedding of \<^verbatim>\<open>id_generation_request_worker\<close>
  (\<^verbatim>\<open>openg2p_sr_celery_workers/tasks/id_generation_request.py\<close>).
  The worker reads one row of the queue table, asks the token service for an access
  token, calls the MOSIP endpoint, writes the returned UIN into the partner row and
  then updates the queue row. Everything the function reads from outside (token service,
  HTTP endpoint, clock, outcome of each commit) is an explicit input; everything it
  changes (the two tables) is an explicit output, together with the list of the effects
  it performed, in order.
\<close>

subsection \<open>Data model\<close>

text \<open>
  Modelled from the spec: the two enumerations and the two mapped classes are imported
  from \<^verbatim>\<open>openg2p_sr_models.models\<close>, which is not part of the sources. The
  request status has the members PENDING, COMPLETED and FAILED. Of the update status the
  worker uses the member PENDING only, written \<open>UPDATE_PENDING\<close> here (the name
  \<open>PENDING\<close> is taken by the request status); its other members are kept apart by
  their name. The attempt count is a Python \<^verbatim>\<open>int\<close>. The column
  \<^verbatim>\<open>ResPartner.id\<close> is written \<open>id'\<close>, and a \<^verbatim>\<open>unique_id\<close> that is NULL
  is \<open>None\<close>.
\<close>

datatype IDGenerationRequestStatus = PENDING | COMPLETED | FAILED

datatype IDGenerationUpdateStatus = UPDATE_PENDING | UPDATE_OTHER string

type_synonym datetime = nat

record G2PQueIDGeneration =
  registrant_id :: string
  number_of_attempts_request :: int
  id_generation_request_status :: IDGenerationRequestStatus
  id_generation_update_status :: IDGenerationUpdateStatus
  last_attempt_datetime_request :: "datetime option"
  last_attempt_error_code_request :: "string option"

record ResPartner =
  id' :: string
  unique_id :: "string option"

text \<open>
  The stored tables, in the order in which a query without ordering returns their rows:
  \<^verbatim>\<open>.first()\<close> is the first row of the list that passes the filter.
\<close>

record database =
  que :: "G2PQueIDGeneration list"
  partners :: "ResPartner list"

text \<open>Modelled from the spec: the class \<^verbatim>\<open>Settings\<close> of the package's
  \<^verbatim>\<open>config\<close> module is not part of the sources; these are the two settings the
  worker reads from \<^verbatim>\<open>_config\<close>, the endpoint and the maximum number of attempts.\<close>

record Settings =
  mosip_get_uin_url :: string
  max_id_generation_request_attempts :: int

subsection \<open>Values parsed from the response body\<close>

text \<open>
  What \<^verbatim>\<open>response.json()\<close> returns: \<^verbatim>\<open>None\<close>, a bool, a number, a
  string, a list or a dict. A dict is an association list in which the first binding of
  a key is the one the dict holds. Numbers are integers.
\<close>

datatype jvalue =
    JNull
  | JBool bool
  | JNum int
  | JStr string
  | JArr "jvalue list"
  | JObj "(string \<times> jvalue) list"

text \<open>Python truthiness, as tested by \<^verbatim>\<open>if not uin\<close>.\<close>

fun truthy :: "jvalue \<Rightarrow> bool" where
  "truthy JNull = False"
| "truthy (JBool b) = b"
| "truthy (JNum n) = (n \<noteq> 0)"
| "truthy (JStr s) = (s \<noteq> [])"
| "truthy (JArr xs) = (xs \<noteq> [])"
| "truthy (JObj kvs) = (kvs \<noteq> [])"

fun type_name :: "jvalue \<Rightarrow> string" where
  "type_name JNull = ''NoneType''"
| "type_name (JBool b) = ''bool''"
| "type_name (JNum n) = ''int''"
| "type_name (JStr s) = ''str''"
| "type_name (JArr xs) = ''list''"
| "type_name (JObj kvs) = ''dict''"

subsection \<open>Exceptions\<close>

text \<open>
  One constructor for each \<^verbatim>\<open>raise\<close> statement of the worker, in source order,
  then the exceptions raised by the interpreter while the parsed body is taken apart, then
  the exceptions raised inside a library call, which carry the text of their
  \<^verbatim>\<open>str()\<close>. \<open>DatabaseError\<close> is what a commit or a lookup raises;
  \<open>PendingRollbackError\<close> is what the session raises when it is used again after one of
  its commits has raised and no rollback was issued.
\<close>

datatype exn =
    AccessTokenMissing
  | StatusNot200 int
  | UINNotReceived
  | NoResPartner string
  | UINAlreadyPresent string
  | AttributeError jvalue
  | TypeError jvalue
  | KeyError string
  | TokenServiceError string
  | HTTPError string
  | JSONDecodeError string
  | DatabaseError string
  | PendingRollbackError string

function str_nat :: "nat \<Rightarrow> string" where
  "str_nat n =
     (if n < 10 then [char_of (48 + n)]
      else str_nat (n div 10) @ [char_of (48 + n mod 10)])"
  by pat_completeness auto
termination
  by (relation "measure id") auto

definition str_int :: "int \<Rightarrow> string" where
  "str_int i = (if i < 0 then ''-'' @ str_nat (nat (- i)) else str_nat (nat i))"

definition quoted :: "string \<Rightarrow> string" where
  "quoted s = [CHR 0x27] @ s @ [CHR 0x27]"

text \<open>
  \<^verbatim>\<open>str(e)\<close>. The texts of the \<^verbatim>\<open>raise\<close> statements are the f-strings of the
  source; the texts of \<^verbatim>\<open>AttributeError\<close>, \<^verbatim>\<open>TypeError\<close> and
  \<^verbatim>\<open>KeyError\<close> are the ones CPython 3.10 prints.
\<close>

fun str_exn :: "exn \<Rightarrow> string" where
  "str_exn AccessTokenMissing = ''Failed to retrieve access token from token response''"
| "str_exn (StatusNot200 c) = ''MOSIP Get UIN API call failed with status code '' @ str_int c"
| "str_exn UINNotReceived = ''UIN not received from MOSIP''"
| "str_exn (NoResPartner r) = ''No res_partner entry found for registrant_id: '' @ r"
| "str_exn (UINAlreadyPresent u) =
     ''MOSIP ID '' @ u @ '' is already present in res_partner.unique_id''"
| "str_exn (AttributeError v) =
     quoted (type_name v) @ '' object has no attribute '' @ quoted ''get''"
| "str_exn (TypeError (JStr s)) = ''string indices must be integers''"
| "str_exn (TypeError (JArr xs)) = ''list indices must be integers or slices, not str''"
| "str_exn (TypeError v) = quoted (type_name v) @ '' object is not subscriptable''"
| "str_exn (KeyError k) = quoted k"
| "str_exn (TokenServiceError m) = m"
| "str_exn (HTTPError m) = m"
| "str_exn (JSONDecodeError m) = m"
| "str_exn (DatabaseError m) = m"
| "str_exn (PendingRollbackError m) = m"

subsection \<open>The outside world\<close>

record response =
  status_code :: int
  json :: "string + jvalue"

text \<open>
  What the collaborators answer during one invocation. A call that raises is
  \<open>Inl\<close> of the exception's text.
  \<^item> \<open>get_oauth_token\<close>: the token service raises, or returns \<^verbatim>\<open>None\<close> or a string.
  \<^item> \<open>httpx_get\<close>: the GET raises or returns a response, whose \<^verbatim>\<open>json()\<close> raises
    or returns the parsed body.
  \<^item> \<open>utcnow_completed\<close>, \<open>utcnow_failed\<close>: the clock as read on the success path and
    in the exception handler.
  \<^item> \<open>commit_partner\<close>, \<open>commit_completed\<close>, \<open>commit_failed\<close>: for each of the three
    \<^verbatim>\<open>session.commit()\<close> calls (lines 89, 99 and 120), \<open>None\<close> when it commits and
    the text of the exception when it raises. A commit that raises stores nothing.
  \<^item> \<open>pending_rollback_error\<close>: the worker has one session and never calls
    \<^verbatim>\<open>rollback()\<close>. Once a commit of the \<^verbatim>\<open>try\<close> block has raised, the
    session refuses further use: the handler's first access to the queue row (line 110)
    raises an exception with this text, which leaves the worker, and line 120 is not reached.
  \<^item> \<open>uin_bind_error\<close>: \<^verbatim>\<open>unique_id\<close> is a text column; a lookup by a value
    that is not a string, or by a string with a NUL character, is rejected by the database
    driver with this text. The session stays usable after it.
  Reading the two tables otherwise succeeds. A string is the sequence of the UTF-8 bytes
  of the Python \<^verbatim>\<open>str\<close>.
\<close>

record world =
  get_oauth_token :: "string + string option"
  httpx_get :: "string + response"
  utcnow_completed :: datetime
  utcnow_failed :: datetime
  commit_partner :: "string option"
  commit_completed :: "string option"
  commit_failed :: "string option"
  pending_rollback_error :: string
  uin_bind_error :: string

text \<open>The effects of one invocation, in the order in which they happen.\<close>

datatype event =
    Info string
  | Info_data string jvalue
  | Error string
  | GetOAuthToken
  | HttpxGet string "(string \<times> string) list"
  | Commit database
  | CommitRaised string

text \<open>A commit that raised.\<close>

fun commit_raised :: "event \<Rightarrow> bool" where
  "commit_raised (CommitRaised m) = True"
| "commit_raised e = False"

subsection \<open>Queries\<close>

text \<open>The position of the row that \<^verbatim>\<open>query(...).filter(P).first()\<close> returns.\<close>

fun first_index :: "('a \<Rightarrow> bool) \<Rightarrow> 'a list \<Rightarrow> nat option" where
  "first_index P [] = None"
| "first_index P (x # xs) =
     (if P x then Some 0 else map_option Suc (first_index P xs))"

text \<open>The three queries of the worker (lines 31, 69 and 79). A row whose
  \<^verbatim>\<open>unique_id\<close> is NULL equals no UIN.\<close>

definition queue_entry_index :: "string \<Rightarrow> database \<Rightarrow> nat option" where
  "queue_entry_index rid db = first_index (\<lambda>q. registrant_id q = rid) (que db)"

definition res_partner_index :: "string \<Rightarrow> database \<Rightarrow> nat option" where
  "res_partner_index rid db = first_index (\<lambda>p. id' p = rid) (partners db)"

definition existing_partner_with_uin :: "string \<Rightarrow> database \<Rightarrow> nat option" where
  "existing_partner_with_uin u db = first_index (\<lambda>p. unique_id p = Some u) (partners db)"

subsection \<open>Taking the parsed body apart\<close>

text \<open>\<^verbatim>\<open>mosip_data.get("response")\<close>: only a dict has \<^verbatim>\<open>get\<close>.\<close>

fun py_get :: "jvalue \<Rightarrow> string \<Rightarrow> exn + jvalue" where
  "py_get (JObj kvs) k = Inr (case map_of kvs k of None \<Rightarrow> JNull | Some v \<Rightarrow> v)"
| "py_get v k = Inl (AttributeError v)"

text \<open>\<^verbatim>\<open>...["uin"]\<close>: a missing key of a dict is a KeyError, anything but a dict
  cannot be indexed by a string.\<close>

fun py_getitem :: "jvalue \<Rightarrow> string \<Rightarrow> exn + jvalue" where
  "py_getitem (JObj kvs) k = (case map_of kvs k of None \<Rightarrow> Inl (KeyError k) | Some v \<Rightarrow> Inr v)"
| "py_getitem v k = Inl (TypeError v)"

subsection \<open>The worker\<close>

text \<open>Lines 44 to 66: token, GET, parsed body, the UIN, which is truthy when returned.\<close>

definition request_uin :: "Settings \<Rightarrow> world \<Rightarrow> (exn + jvalue) \<times> event list" where
  "request_uin cfg w =
     (case get_oauth_token w of
        Inl m \<Rightarrow> (Inl (TokenServiceError m), [GetOAuthToken])
      | Inr access_token \<Rightarrow>
          (let t1 = [GetOAuthToken, Info ''Received access token''] in
           if access_token = None \<or> access_token = Some [] then (Inl AccessTokenMissing, t1)
           else
             (let headers = [(''Cookie'', ''Authorization='' @ the access_token),
                             (''Accept'', ''application/json'')];
                  t2 = t1 @ [HttpxGet (mosip_get_uin_url cfg) headers] in
              case httpx_get w of
                Inl m \<Rightarrow> (Inl (HTTPError m), t2)
              | Inr response \<Rightarrow>
                  if status_code response \<noteq> 200
                  then (Inl (StatusNot200 (status_code response)), t2)
                  else
                    (case json response of
                       Inl m \<Rightarrow> (Inl (JSONDecodeError m), t2)
                     | Inr mosip_data \<Rightarrow>
                         (let t3 = t2 @ [Info_data ''Received UIN data from MOSIP: '' mosip_data] in
                          case py_get mosip_data ''response'' of
                            Inl e \<Rightarrow> (Inl e, t3)
                          | Inr r \<Rightarrow>
                              (case py_getitem r ''uin'' of
                                 Inl e \<Rightarrow> (Inl e, t3)
                               | Inr uin \<Rightarrow>
                                   if \<not> truthy uin then (Inl UINNotReceived, t3)
                                   else (Inr uin, t3)))))))"

text \<open>The strings the driver takes as the value of a lookup: those without a NUL
  character.\<close>

definition driver_accepts :: "string \<Rightarrow> bool" where
  "driver_accepts u = (CHR 0x00 \<notin> set u)"

text \<open>Lines 69 to 89: the partner row, the lookup of a row that holds the UIN, the
  assignment and its commit. The lookup of line 79 raises when the driver rejects the
  value. A text column holds no NUL character, so a value the driver rejects is held by
  no row the worker can meet; the rejection stands on the branch where no row holds the
  value.\<close>

definition assign_uin ::
  "world \<Rightarrow> string \<Rightarrow> jvalue \<Rightarrow> database \<Rightarrow> (exn + unit) \<times> database \<times> event list" where
  "assign_uin w rid uin db =
     (case res_partner_index rid db of
        None \<Rightarrow> (Inl (NoResPartner rid), db, [])
      | Some pi \<Rightarrow>
          (case uin of
             JStr u \<Rightarrow>
               (case existing_partner_with_uin u db of
                  Some existing \<Rightarrow> (Inl (UINAlreadyPresent u), db, [])
                | None \<Rightarrow>
                    if \<not> driver_accepts u
                    then (Inl (DatabaseError (uin_bind_error w)), db, [])
                    else
                      (let res_partner = (partners db ! pi)\<lparr>unique_id := Some u\<rparr>;
                           db1 = db\<lparr>partners := (partners db)[pi := res_partner]\<rparr> in
                       case commit_partner w of
                         Some m \<Rightarrow> (Inl (DatabaseError m), db, [CommitRaised m])
                       | None \<Rightarrow> (Inr (), db1, [Commit db1])))
           | _ \<Rightarrow> (Inl (DatabaseError (uin_bind_error w)), db, [])))"

text \<open>Lines 92 to 103: the queue row on success, its commit, the log line.\<close>

definition completed_entry :: "world \<Rightarrow> G2PQueIDGeneration \<Rightarrow> G2PQueIDGeneration" where
  "completed_entry w q =
     q\<lparr>number_of_attempts_request := number_of_attempts_request q + 1,
       id_generation_request_status := COMPLETED,
       id_generation_update_status := UPDATE_PENDING,
       last_attempt_datetime_request := Some (utcnow_completed w),
       last_attempt_error_code_request := None\<rparr>"

definition complete_request ::
  "world \<Rightarrow> string \<Rightarrow> nat \<Rightarrow> database \<Rightarrow> (exn + unit) \<times> database \<times> event list" where
  "complete_request w rid qi db =
     (let db2 = db\<lparr>que := (que db)[qi := completed_entry w (que db ! qi)]\<rparr> in
      case commit_completed w of
        Some m \<Rightarrow> (Inl (DatabaseError m), db, [CommitRaised m])
      | None \<Rightarrow>
          (Inr (), db2,
           [Commit db2, Info (''ID generation request completed for registrant_id: '' @ rid)]))"

text \<open>The body of the \<^verbatim>\<open>try\<close> block once the queue row is found (lines 43 to 103).\<close>

definition attempt ::
  "Settings \<Rightarrow> world \<Rightarrow> string \<Rightarrow> nat \<Rightarrow> database \<Rightarrow> (exn + unit) \<times> database \<times> event list" where
  "attempt cfg w rid qi db =
     (case request_uin cfg w of
        (Inl e, t) \<Rightarrow> (Inl e, db, t)
      | (Inr uin, t) \<Rightarrow>
          (case assign_uin w rid uin db of
             (Inl e, db1, t1) \<Rightarrow> (Inl e, db1, t @ t1)
           | (Inr u, db1, t1) \<Rightarrow>
               (case complete_request w rid qi db1 of
                  (r, db2, t2) \<Rightarrow> (r, db2, t @ t1 @ t2))))"

text \<open>Lines 105 to 120: the handler. The status is set to FAILED when the new count
  reaches the maximum and is not written otherwise. When a commit of the
  \<^verbatim>\<open>try\<close> block has raised (\<open>commit_had_raised\<close>), the error is logged and line 110
  raises: nothing is counted and nothing is committed.\<close>

definition failed_entry :: "Settings \<Rightarrow> world \<Rightarrow> exn \<Rightarrow> G2PQueIDGeneration \<Rightarrow> G2PQueIDGeneration" where
  "failed_entry cfg w e q =
     (let q1 = q\<lparr>number_of_attempts_request := number_of_attempts_request q + 1,
                 last_attempt_datetime_request := Some (utcnow_failed w),
                 last_attempt_error_code_request := Some (str_exn e)\<rparr> in
      if number_of_attempts_request q1 \<ge> max_id_generation_request_attempts cfg
      then q1\<lparr>id_generation_request_status := FAILED\<rparr>
      else q1)"

definition handle_exception ::
  "Settings \<Rightarrow> world \<Rightarrow> string \<Rightarrow> nat \<Rightarrow> exn \<Rightarrow> bool \<Rightarrow> database \<Rightarrow>
     (exn + unit) \<times> database \<times> event list" where
  "handle_exception cfg w rid qi e commit_had_raised db =
     (let error_message =
            ''Error during ID generation request for registrant_id '' @ rid @ '': '' @ str_exn e;
          db3 = db\<lparr>que := (que db)[qi := failed_entry cfg w e (que db ! qi)]\<rparr> in
      if commit_had_raised
      then (Inl (PendingRollbackError (pending_rollback_error w)), db, [Error error_message])
      else
        case commit_failed w of
          Some m \<Rightarrow> (Inl (DatabaseError m), db, [Error error_message, CommitRaised m])
        | None \<Rightarrow> (Inr (), db3, [Error error_message, Commit db3]))"

text \<open>
  The task. The result is \<open>Inr ()\<close> when the function returns and \<open>Inl e\<close> when the
  exception \<open>e\<close> leaves it; with it come the stored tables afterwards and the effects.
  The \<^verbatim>\<open>return\<close> of line 41 leaves the function before the last log line.
\<close>

definition id_generation_request_worker ::
  "Settings \<Rightarrow> world \<Rightarrow> string \<Rightarrow> database \<Rightarrow> (exn + unit) \<times> database \<times> event list" where
  "id_generation_request_worker cfg w rid db =
     (let t0 = [Info (''Starting ID generation request for registrant_id: '' @ rid)];
          done = [Info (''Completed ID generation request for registrant_id: '' @ rid)] in
      case queue_entry_index rid db of
        None \<Rightarrow> (Inr (), db, t0 @ [Error (''No queue entry found for registrant_id: '' @ rid)])
      | Some qi \<Rightarrow>
          (case attempt cfg w rid qi db of
             (Inr u, db1, t1) \<Rightarrow> (Inr (), db1, t0 @ t1 @ done)
           | (Inl e, db1, t1) \<Rightarrow>
               (case handle_exception cfg w rid qi e (list_ex commit_raised t1) db1 of
                  (Inr u, db2, t2) \<Rightarrow> (Inr (), db2, t0 @ t1 @ t2 @ done)
                | (Inl e', db2, t2) \<Rightarrow> (Inl e', db2, t0 @ t1 @ t2))))"

text \<open>The three parts of what an invocation yields.\<close>

abbreviation outcome :: "(exn + unit) \<times> database \<times> event list \<Rightarrow> exn + unit" where
  "outcome x \<equiv> fst x"

abbreviation stored :: "(exn + unit) \<times> database \<times> event list \<Rightarrow> database" where
  "stored x \<equiv> fst (snd x)"

abbreviation effects :: "(exn + unit) \<times> database \<times> event list \<Rightarrow> event list" where
  "effects x \<equiv> snd (snd x)"

text \<open>A sequence of invocations for one registrant, each in its own world, one after
  the other on the stored tables (what redelivery of the task amounts to).\<close>

fun invocations :: "Settings \<Rightarrow> string \<Rightarrow> world list \<Rightarrow> database \<Rightarrow> database" where
  "invocations cfg rid [] db = db"
| "invocations cfg rid (w # ws) db =
     invocations cfg rid ws (stored (id_generation_request_worker cfg w rid db))"

subsection \<open>Vocabulary of the properties\<close>

text \<open>The tables as committed, read off the effects.\<close>

fun commits :: "event list \<Rightarrow> database list" where
  "commits [] = []"
| "commits (Commit db # es) = db # commits es"
| "commits (e # es) = commits es"


text \<open>Some partner row other than row \<open>pi\<close> holds the UIN \<open>u\<close>.\<close>

definition held_by_other_row :: "nat \<Rightarrow> string \<Rightarrow> database \<Rightarrow> bool" where
  "held_by_other_row pi u db =
     list_ex (\<lambda>j. j \<noteq> pi \<and> unique_id (partners db ! j) = Some u) [0..<length (partners db)]"

subsection \<open>Sample data\<close>

definition settings3 :: Settings where
  "settings3 = \<lparr>mosip_get_uin_url = ''https://mosip.example/uin'',
                max_id_generation_request_attempts = 3\<rparr>"

definition mosip_body :: "jvalue \<Rightarrow> jvalue" where
  "mosip_body uin = JObj [(''id'', JNull), (''response'', JObj [(''uin'', uin)])]"

definition world_issuing :: "jvalue \<Rightarrow> world" where
  "world_issuing uin =
     \<lparr>get_oauth_token = Inr (Some ''tok''),
      httpx_get = Inr \<lparr>status_code = 200, json = Inr (mosip_body uin)\<rparr>,
      utcnow_completed = 1000, utcnow_failed = 1001,
      commit_partner = None, commit_completed = None, commit_failed = None,
      pending_rollback_error = ''transaction has been rolled back'',
      uin_bind_error = ''unsupported bind value''\<rparr>"

definition world_without_token :: world where
  "world_without_token = (world_issuing (JStr ''U1''))\<lparr>get_oauth_token := Inr None\<rparr>"

definition entry :: "string \<Rightarrow> int \<Rightarrow> IDGenerationRequestStatus \<Rightarrow> G2PQueIDGeneration" where
  "entry rid n st =
     \<lparr>registrant_id = rid, number_of_attempts_request = n,
      id_generation_request_status = st,
      id_generation_update_status = UPDATE_OTHER ''NOT_APPLICABLE'',
      last_attempt_datetime_request = None, last_attempt_error_code_request = None\<rparr>"

definition partner :: "string \<Rightarrow> string option \<Rightarrow> ResPartner" where
  "partner rid u = \<lparr>id' = rid, unique_id = u\<rparr>"

section \<open>Properties\<close>

subsection \<open>The queries\<close>

lemma first_index_SomeD:
  "first_index P xs = Some i \<Longrightarrow> i < length xs \<and> P (xs ! i)"
  by (induction xs arbitrary: i) (auto split: if_splits)

lemma first_index_None_iff:
  "first_index P xs = None \<longleftrightarrow> (\<forall>x\<in>set xs. \<not> P x)"
  by (induction xs) auto

lemma first_index_map:
  "first_index (\<lambda>x. f x = k) xs = first_index (\<lambda>y. y = k) (map f xs)"
  by (induction xs) auto

subsection \<open>The stages of the worker\<close>

lemma request_uin_no_commit:
  "request_uin cfg w = (r, t) \<Longrightarrow> \<not> list_ex commit_raised t"
  by (auto simp: request_uin_def Let_def split: sum.splits if_splits)

lemma request_uin_no_commit_raised: "\<not> list_ex commit_raised (snd (request_uin cfg w))"
  by (cases "request_uin cfg w") (simp add: request_uin_no_commit)

text \<open>A commit raises only where the world says so.\<close>

lemma attempt_commit_raised:
  "list_ex commit_raised (effects (attempt cfg w rid qi db)) \<Longrightarrow>
     commit_partner w \<noteq> None \<or> commit_completed w \<noteq> None"
  by (auto simp: attempt_def assign_uin_def complete_request_def Let_def
        split: sum.splits prod.splits option.splits jvalue.splits if_splits
        dest: request_uin_no_commit)

lemma assign_uin_Inl:
  "assign_uin w rid uin db = (Inl e, db1, t) \<Longrightarrow> db1 = db"
  by (auto simp: assign_uin_def Let_def split: option.splits jvalue.splits if_splits)

lemma assign_uin_Inr:
  "assign_uin w rid uin db = (Inr x, db1, t) \<Longrightarrow>
     \<exists>pi u. uin = JStr u \<and> res_partner_index rid db = Some pi
        \<and> existing_partner_with_uin u db = None \<and> driver_accepts u
        \<and> commit_partner w = None
        \<and> db1 = db\<lparr>partners := (partners db)[pi := (partners db ! pi)\<lparr>unique_id := Some u\<rparr>]\<rparr>
        \<and> t = [Commit db1]"
  by (auto simp: assign_uin_def Let_def split: option.splits jvalue.splits if_splits)

lemma complete_request_cases:
  "complete_request w rid qi db = (r, db2, t) \<Longrightarrow>
     (commit_completed w = None \<and> r = Inr ()
        \<and> db2 = db\<lparr>que := (que db)[qi := completed_entry w (que db ! qi)]\<rparr>
        \<and> t = [Commit db2, Info (''ID generation request completed for registrant_id: '' @ rid)])
   \<or> (\<exists>m. commit_completed w = Some m \<and> r = Inl (DatabaseError m) \<and> db2 = db \<and> t = [CommitRaised m])"
  by (auto simp: complete_request_def Let_def split: option.splits)

lemma attempt_Inl_que:
  "attempt cfg w rid qi db = (Inl e, db1, t) \<Longrightarrow> que db1 = que db"
  by (auto simp: attempt_def split: sum.splits prod.splits
           dest!: assign_uin_Inl assign_uin_Inr complete_request_cases)

lemma attempt_Inr_que:
  "attempt cfg w rid qi db = (Inr x, db1, t) \<Longrightarrow>
     que db1 = (que db)[qi := completed_entry w (que db ! qi)] \<and> \<not> list_ex commit_raised t"
  by (auto simp: attempt_def split: sum.splits prod.splits
           dest!: assign_uin_Inr complete_request_cases request_uin_no_commit)

lemma worker_found_returns:
  assumes "queue_entry_index rid db = Some qi" and "attempt cfg w rid qi db = (Inr x, db1, t1)"
  shows "id_generation_request_worker cfg w rid db =
           (Inr (), db1,
            [Info (''Starting ID generation request for registrant_id: '' @ rid)] @ t1 @
            [Info (''Completed ID generation request for registrant_id: '' @ rid)])"
  using assms by (simp add: id_generation_request_worker_def)

lemma worker_found_handled:
  assumes "queue_entry_index rid db = Some qi" and "attempt cfg w rid qi db = (Inl e, db1, t1)"
    and "\<not> list_ex commit_raised t1" and "commit_failed w = None"
  shows "id_generation_request_worker cfg w rid db =
           (Inr (), db1\<lparr>que := (que db1)[qi := failed_entry cfg w e (que db1 ! qi)]\<rparr>,
            [Info (''Starting ID generation request for registrant_id: '' @ rid)] @ t1 @
            [Error (''Error during ID generation request for registrant_id '' @ rid @ '': '' @ str_exn e),
             Commit (db1\<lparr>que := (que db1)[qi := failed_entry cfg w e (que db1 ! qi)]\<rparr>),
             Info (''Completed ID generation request for registrant_id: '' @ rid)])"
  using assms by (simp add: id_generation_request_worker_def handle_exception_def Let_def)

lemma worker_found_escapes:
  assumes "queue_entry_index rid db = Some qi" and "attempt cfg w rid qi db = (Inl e, db1, t1)"
    and "\<not> list_ex commit_raised t1" and "commit_failed w = Some m"
  shows "id_generation_request_worker cfg w rid db =
           (Inl (DatabaseError m), db1,
            [Info (''Starting ID generation request for registrant_id: '' @ rid)] @ t1 @
            [Error (''Error during ID generation request for registrant_id '' @ rid @ '': '' @ str_exn e),
             CommitRaised m])"
  using assms by (simp add: id_generation_request_worker_def handle_exception_def Let_def)

lemma worker_found_session_lost:
  assumes "queue_entry_index rid db = Some qi" and "attempt cfg w rid qi db = (Inl e, db1, t1)"
    and "list_ex commit_raised t1"
  shows "id_generation_request_worker cfg w rid db =
           (Inl (PendingRollbackError (pending_rollback_error w)), db1,
            [Info (''Starting ID generation request for registrant_id: '' @ rid)] @ t1 @
            [Error (''Error during ID generation request for registrant_id '' @ rid @ '': '' @ str_exn e)])"
  using assms by (simp add: id_generation_request_worker_def handle_exception_def Let_def)

lemma queue_entry_index_SomeD:
  "queue_entry_index rid db = Some qi \<Longrightarrow>
     qi < length (que db) \<and> registrant_id (que db ! qi) = rid"
  unfolding queue_entry_index_def by (drule first_index_SomeD) simp

lemma attempts_completed_entry [simp]:
  "number_of_attempts_request (completed_entry w q) = number_of_attempts_request q + 1"
  by (simp add: completed_entry_def)

lemma attempts_failed_entry [simp]:
  "number_of_attempts_request (failed_entry cfg w e q) = number_of_attempts_request q + 1"
  by (simp add: failed_entry_def Let_def)

lemma registrant_id_completed_entry [simp]:
  "registrant_id (completed_entry w q) = registrant_id q"
  by (simp add: completed_entry_def)

lemma registrant_id_failed_entry [simp]:
  "registrant_id (failed_entry cfg w e q) = registrant_id q"
  by (simp add: failed_entry_def Let_def)

lemma status_completed_entry [simp]:
  "id_generation_request_status (completed_entry w q) = COMPLETED"
  by (simp add: completed_entry_def)

lemma status_failed_entry:
  "id_generation_request_status (failed_entry cfg w e q) =
     (if max_id_generation_request_attempts cfg \<le> number_of_attempts_request q + 1 then FAILED
      else id_generation_request_status q)"
  by (simp add: failed_entry_def Let_def)

text \<open>What an invocation that finds its queue row leaves in the queue table: nothing
  when the handler's commit raises, else the row as completed or as failed.\<close>

lemma worker_que_cases:
  assumes "queue_entry_index rid db = Some qi"
  shows "(que (stored (id_generation_request_worker cfg w rid db)) = que db
            \<and> list_ex commit_raised (effects (id_generation_request_worker cfg w rid db)))
       \<or> que (stored (id_generation_request_worker cfg w rid db))
            = (que db)[qi := completed_entry w (que db ! qi)]
       \<or> (\<exists>e. que (stored (id_generation_request_worker cfg w rid db))
            = (que db)[qi := failed_entry cfg w e (que db ! qi)])"
proof -
  obtain r db1 t1 where a: "attempt cfg w rid qi db = (r, db1, t1)"
    by (cases "attempt cfg w rid qi db") auto
  show ?thesis
  proof (cases r)
    case (Inr x)
    with assms a show ?thesis
      by (simp add: worker_found_returns attempt_Inr_que)
  next
    case (Inl e)
    with a have q: "que db1 = que db" by (simp add: attempt_Inl_que)
    show ?thesis
    proof (cases "list_ex commit_raised t1")
      case True
      with assms a Inl q show ?thesis by (simp add: worker_found_session_lost)
    next
      case False
      show ?thesis
      proof (cases "commit_failed w")
        case None
        with assms a Inl q False show ?thesis by (auto simp: worker_found_handled)
      next
        case (Some m)
        with assms a Inl q False show ?thesis by (simp add: worker_found_escapes)
      qed
    qed
  qed
qed

lemma commits_append: "commits (xs @ ys) = commits xs @ commits ys"
  by (induction xs rule: commits.induct) auto

lemma request_uin_commits: "commits (snd (request_uin cfg w)) = []"
  by (auto simp: request_uin_def Let_def split: sum.splits if_splits)


lemma request_uin_truthy:
  "fst (request_uin cfg w) = Inr uin \<Longrightarrow> truthy uin"
  by (auto simp: request_uin_def Let_def split: sum.splits if_splits)

lemma request_uin_not_present:
  "fst (request_uin cfg w) \<noteq> Inl (UINAlreadyPresent u)"
  by (auto simp: request_uin_def Let_def split: sum.splits if_splits jvalue.splits option.splits
      elim!: py_get.elims py_getitem.elims)

lemma existing_partner_with_uin_None_iff:
  "existing_partner_with_uin u db = None \<longleftrightarrow> (\<forall>p\<in>set (partners db). unique_id p \<noteq> Some u)"
  by (simp add: existing_partner_with_uin_def first_index_None_iff)



text \<open>The \<^verbatim>\<open>try\<close> block when a UIN is issued: assigned, or already present.\<close>

lemma attempt_assigned:
  assumes "fst (request_uin cfg w) = Inr (JStr u)"
    and "res_partner_index rid db = Some pi"
    and "existing_partner_with_uin u db = None"
    and "driver_accepts u"
    and "commit_partner w = None"
  shows "attempt cfg w rid qi db =
     (let db1 = db\<lparr>partners := (partners db)[pi := (partners db ! pi)\<lparr>unique_id := Some u\<rparr>]\<rparr> in
      case complete_request w rid qi db1 of
        (r, db2, t2) \<Rightarrow> (r, db2, snd (request_uin cfg w) @ [Commit db1] @ t2))"
  using assms
  by (cases "request_uin cfg w") (simp add: attempt_def assign_uin_def Let_def)


lemma assign_uin_present_iff:
  "fst (assign_uin w rid uin db) = Inl (UINAlreadyPresent u) \<longleftrightarrow>
     uin = JStr u \<and> res_partner_index rid db \<noteq> None \<and> existing_partner_with_uin u db \<noteq> None"
  by (auto simp: assign_uin_def Let_def split: option.splits jvalue.splits if_splits)

lemma complete_request_not_present:
  "fst (complete_request w rid qi db) \<noteq> Inl (UINAlreadyPresent u)"
  by (auto simp: complete_request_def Let_def split: option.splits)

text \<open>What it means that lines 44 to 66 yield the UIN: a non-empty token, a response
  with status 200, a body that parses, whose \<^verbatim>\<open>response\<close> has a truthy
  \<^verbatim>\<open>uin\<close>.\<close>

lemma request_uin_Inr_iff:
  "fst (request_uin cfg w) = Inr uin \<longleftrightarrow>
     (\<exists>tok resp body r. get_oauth_token w = Inr (Some tok) \<and> tok \<noteq> []
        \<and> httpx_get w = Inr resp \<and> status_code resp = 200 \<and> json resp = Inr body
        \<and> py_get body ''response'' = Inr r \<and> py_getitem r ''uin'' = Inr uin \<and> truthy uin)"
  by (auto simp: request_uin_def Let_def split: sum.splits if_splits)

lemma request_uin_issued:
  assumes "get_oauth_token w = Inr (Some tok)" and "tok \<noteq> []"
    and "httpx_get w = Inr resp" and "status_code resp = 200"
    and "json resp = Inr (JObj kvs)"
    and "map_of kvs ''response'' = Some (JObj kvs2)"
    and "map_of kvs2 ''uin'' = Some uin" and "truthy uin"
  shows "request_uin cfg w =
     (Inr uin,
      [GetOAuthToken, Info ''Received access token'',
       HttpxGet (mosip_get_uin_url cfg)
         [(''Cookie'', ''Authorization='' @ tok), (''Accept'', ''application/json'')],
       Info_data ''Received UIN data from MOSIP: '' (JObj kvs)])"
  using assms by (simp add: request_uin_def Let_def)





lemma attempt_commit_raised_exn:
  "attempt cfg w rid qi db = (Inl e, db1, t1) \<Longrightarrow> list_ex commit_raised t1 \<Longrightarrow>
     \<exists>m. e = DatabaseError m"
  by (auto simp: attempt_def assign_uin_def complete_request_def Let_def
        split: sum.splits prod.splits option.splits jvalue.splits if_splits
        dest: request_uin_no_commit)

text \<open>The handler after a failure that is not a raised commit.\<close>

lemma handled_failure:
  assumes "queue_entry_index rid db = Some qi"
    and "attempt cfg w rid qi db = (Inl e, db1, t1)"
    and "\<not> list_ex commit_raised t1"
    and "commit_failed w = None"
  shows "outcome (id_generation_request_worker cfg w rid db) = Inr ()
     \<and> partners (stored (id_generation_request_worker cfg w rid db)) = partners db1
     \<and> que (stored (id_generation_request_worker cfg w rid db)) =
         (que db)[qi := (que db ! qi)
           \<lparr>number_of_attempts_request := number_of_attempts_request (que db ! qi) + 1,
            last_attempt_datetime_request := Some (utcnow_failed w),
            last_attempt_error_code_request := Some (str_exn e),
            id_generation_request_status :=
              (if max_id_generation_request_attempts cfg
                    \<le> number_of_attempts_request (que db ! qi) + 1
               then FAILED else id_generation_request_status (que db ! qi))\<rparr>]"
proof -
  from assms(2) have q: "que db1 = que db" by (rule attempt_Inl_que)
  have "failed_entry cfg w e (que db ! qi) = (que db ! qi)
           \<lparr>number_of_attempts_request := number_of_attempts_request (que db ! qi) + 1,
            last_attempt_datetime_request := Some (utcnow_failed w),
            last_attempt_error_code_request := Some (str_exn e),
            id_generation_request_status :=
              (if max_id_generation_request_attempts cfg
                    \<le> number_of_attempts_request (que db ! qi) + 1
               then FAILED else id_generation_request_status (que db ! qi))\<rparr>"
    by (simp add: failed_entry_def Let_def)
  with assms q show ?thesis
    by (simp add: worker_found_handled)
qed

text \<open>The failures the specification lists, as exceptions of the \<^verbatim>\<open>try\<close> block.\<close>

lemma attempt_token_missing:
  "get_oauth_token w = Inr None \<or> get_oauth_token w = Inr (Some []) \<Longrightarrow>
     outcome (attempt cfg w rid qi db) = Inl AccessTokenMissing"
  by (auto simp: attempt_def request_uin_def)

lemma attempt_status_not_200:
  "get_oauth_token w = Inr (Some tok) \<Longrightarrow> tok \<noteq> [] \<Longrightarrow> httpx_get w = Inr resp \<Longrightarrow>
   status_code resp \<noteq> 200 \<Longrightarrow>
     outcome (attempt cfg w rid qi db) = Inl (StatusNot200 (status_code resp))"
  by (simp add: attempt_def request_uin_def Let_def)

lemma attempt_body_malformed:
  "get_oauth_token w = Inr (Some tok) \<Longrightarrow> tok \<noteq> [] \<Longrightarrow> httpx_get w = Inr resp \<Longrightarrow>
   status_code resp = 200 \<Longrightarrow> json resp = Inl m \<Longrightarrow>
     outcome (attempt cfg w rid qi db) = Inl (JSONDecodeError m)"
  by (simp add: attempt_def request_uin_def Let_def)

lemma attempt_no_res_partner:
  "fst (request_uin cfg w) = Inr uin \<Longrightarrow> res_partner_index rid db = None \<Longrightarrow>
     outcome (attempt cfg w rid qi db) = Inl (NoResPartner rid)"
  by (cases "request_uin cfg w") (simp add: attempt_def assign_uin_def)

text \<open>The queue table keeps its length and its registrant ids; no attempt count goes down.\<close>

lemma worker_length_que:
  "length (que (stored (id_generation_request_worker cfg w rid db))) = length (que db)"
proof (cases "queue_entry_index rid db")
  case None
  then show ?thesis by (simp add: id_generation_request_worker_def)
next
  case (Some qi)
  from worker_que_cases [OF Some, of cfg w] show ?thesis by auto
qed

lemma worker_registrant_ids:
  "map registrant_id (que (stored (id_generation_request_worker cfg w rid db)))
     = map registrant_id (que db)"
proof (cases "queue_entry_index rid db")
  case None
  then show ?thesis by (simp add: id_generation_request_worker_def)
next
  case (Some qi)
  then have l: "qi < length (que db)" by (simp add: queue_entry_index_SomeD)
  from worker_que_cases [OF Some, of cfg w] l show ?thesis
    by (auto simp: map_update list_update_same_conv)
qed

lemma worker_queue_entry_index:
  "queue_entry_index rid' (stored (id_generation_request_worker cfg w rid db))
     = queue_entry_index rid' db"
  unfolding queue_entry_index_def
  by (subst (1 2) first_index_map) (simp add: worker_registrant_ids)

lemma worker_attempts_mono:
  assumes "i < length (que db)"
  shows "number_of_attempts_request (que db ! i)
           \<le> number_of_attempts_request
                (que (stored (id_generation_request_worker cfg w rid db)) ! i)"
proof (cases "queue_entry_index rid db")
  case None
  then show ?thesis by (simp add: id_generation_request_worker_def)
next
  case (Some qi)
  then have "qi < length (que db)" by (simp add: queue_entry_index_SomeD)
  with worker_que_cases [OF Some, of cfg w] assms show ?thesis
    by (auto simp: nth_list_update)
qed

lemma invocations_attempts_mono:
  "i < length (que db) \<Longrightarrow>
     number_of_attempts_request (que db ! i)
       \<le> number_of_attempts_request (que (invocations cfg rid ws db) ! i)"
proof (induction ws arbitrary: db)
  case Nil
  then show ?case by simp
next
  case (Cons w ws)
  let ?db' = "stored (id_generation_request_worker cfg w rid db)"
  from Cons.prems have "i < length (que ?db')" by (simp add: worker_length_que)
  then have "number_of_attempts_request (que ?db' ! i)
      \<le> number_of_attempts_request (que (invocations cfg rid ws ?db') ! i)"
    by (rule Cons.IH)
  with worker_attempts_mono [OF Cons.prems, of cfg w rid] show ?case by simp
qed

lemma invocations_queue_entry_index:
  "queue_entry_index rid' (invocations cfg rid ws db) = queue_entry_index rid' db"
  by (induction ws arbitrary: db) (simp_all add: worker_queue_entry_index)

lemmas sample_defs = settings3_def mosip_body_def world_issuing_def world_without_token_def
  entry_def partner_def

lemmas worker_defs = id_generation_request_worker_def queue_entry_index_def attempt_def
  request_uin_def assign_uin_def res_partner_index_def existing_partner_with_uin_def
  driver_accepts_def
  complete_request_def completed_entry_def handle_exception_def failed_entry_def Let_def

subsection \<open>A commit that raises, a value the driver rejects\<close>

text \<open>
  The worker on three inputs. The commit of line 89 raises: the session raises again at
  line 110, the exception leaves the worker and the tables are untouched. The commit of
  line 99 raises: the same, with the UIN already stored in the partner row and the queue
  row untouched. The authority issues a string with a NUL character: the lookup of line 79
  raises and a failure is counted, nothing is assigned.
\<close>

lemma raised_partner_commit_example:
  "id_generation_request_worker settings3
      ((world_issuing (JStr ''U1''))\<lparr>commit_partner := Some ''connection lost''\<rparr>) ''R1''
      \<lparr>que = [entry ''R1'' 0 PENDING], partners = [partner ''R1'' None]\<rparr>
   = (Inl (PendingRollbackError ''transaction has been rolled back''),
      \<lparr>que = [entry ''R1'' 0 PENDING], partners = [partner ''R1'' None]\<rparr>,
      [Info ''Starting ID generation request for registrant_id: R1'',
       GetOAuthToken,
       Info ''Received access token'',
       HttpxGet ''https://mosip.example/uin''
         [(''Cookie'', ''Authorization=tok''), (''Accept'', ''application/json'')],
       Info_data ''Received UIN data from MOSIP: '' (mosip_body (JStr ''U1'')),
       CommitRaised ''connection lost'',
       Error ''Error during ID generation request for registrant_id R1: connection lost''])"
  by (simp add: worker_defs sample_defs)

lemma raised_completed_commit_example:
  "outcome (id_generation_request_worker settings3
      ((world_issuing (JStr ''U1''))\<lparr>commit_completed := Some ''connection lost''\<rparr>) ''R1''
      \<lparr>que = [entry ''R1'' 0 PENDING], partners = [partner ''R1'' None]\<rparr>)
     = Inl (PendingRollbackError ''transaction has been rolled back'')
   \<and> stored (id_generation_request_worker settings3
      ((world_issuing (JStr ''U1''))\<lparr>commit_completed := Some ''connection lost''\<rparr>) ''R1''
      \<lparr>que = [entry ''R1'' 0 PENDING], partners = [partner ''R1'' None]\<rparr>)
     = \<lparr>que = [entry ''R1'' 0 PENDING], partners = [partner ''R1'' (Some ''U1'')]\<rparr>"
  by (simp add: worker_defs sample_defs)

lemma rejected_uin_example:
  "\<not> driver_accepts [CHR ''U'', CHR 0x00, CHR ''1'']
   \<and> outcome (id_generation_request_worker settings3
        (world_issuing (JStr [CHR ''U'', CHR 0x00, CHR ''1''])) ''R1''
        \<lparr>que = [entry ''R1'' 0 PENDING], partners = [partner ''R1'' None]\<rparr>) = Inr ()
   \<and> stored (id_generation_request_worker settings3
        (world_issuing (JStr [CHR ''U'', CHR 0x00, CHR ''1''])) ''R1''
        \<lparr>que = [entry ''R1'' 0 PENDING], partners = [partner ''R1'' None]\<rparr>)
       = \<lparr>que = [\<lparr>registrant_id = ''R1'', number_of_attempts_request = 1,
                  id_generation_request_status = PENDING,
                  id_generation_update_status = UPDATE_OTHER ''NOT_APPLICABLE'',
                  last_attempt_datetime_request = Some 1001,
                  last_attempt_error_code_request = Some ''unsupported bind value''\<rparr>],
          partners = [partner ''R1'' None]\<rparr>"
  by (simp add: worker_defs sample_defs)

subsection \<open>No queue entry\<close>

text \<open>
  C7. When no row of the queue table has the given \<^verbatim>\<open>registrant_id\<close>, the worker
  returns, the stored tables are what they were, and its only effects are the two log
  lines: no attempt is counted, no token is requested, the authority is not called and
  nothing is committed.
\<close>

theorem missing_queue_entry_is_noop:
  assumes "queue_entry_index rid db = None"
  shows "id_generation_request_worker cfg w rid db =
           (Inr (), db,
            [Info (''Starting ID generation request for registrant_id: '' @ rid),
             Error (''No queue entry found for registrant_id: '' @ rid)])"
  using assms by (simp add: id_generation_request_worker_def)

theorem missing_queue_entry_is_noop_witness:
  "queue_entry_index ''R2'' \<lparr>que = [entry ''R1'' 1 PENDING], partners = [partner ''R1'' None]\<rparr> = None
   \<and> id_generation_request_worker settings3 (world_issuing (JStr ''U1'')) ''R2''
        \<lparr>que = [entry ''R1'' 1 PENDING], partners = [partner ''R1'' None]\<rparr>
      = (Inr (), \<lparr>que = [entry ''R1'' 1 PENDING], partners = [partner ''R1'' None]\<rparr>,
         [Info ''Starting ID generation request for registrant_id: R2'',
          Error ''No queue entry found for registrant_id: R2''])"
proof -
  have h: "queue_entry_index ''R2''
             \<lparr>que = [entry ''R1'' 1 PENDING], partners = [partner ''R1'' None]\<rparr> = None"
    by (simp add: queue_entry_index_def entry_def)
  show ?thesis
    using h missing_queue_entry_is_noop [OF h, of settings3 "world_issuing (JStr ''U1'')"]
    by simp
qed

subsection \<open>What leaves the worker\<close>

text \<open>
  C6. The worker returns to its caller unless a commit raises. A missing queue entry, a
  token that is missing or whose request raises, any failure of the authority call, a
  missing partner row and a UIN that is already present are all caught: the worker
  returns, and what the \<^verbatim>\<open>try\<close> block raised is in the committed queue row, as
  its error detail. An exception leaves the worker only after a commit has raised: it is
  the exception of the handler's own commit (line 120), or the one the session raises at
  line 110 after a commit of the \<^verbatim>\<open>try\<close> block has raised.
\<close>

theorem only_failed_commit_escapes:
  "(commit_partner w = None \<and> commit_completed w = None \<and> commit_failed w = None \<longrightarrow>
      outcome (id_generation_request_worker cfg w rid db) = Inr ())
   \<and> (\<forall>e. outcome (id_generation_request_worker cfg w rid db) = Inl e \<longrightarrow>
          list_ex commit_raised (effects (id_generation_request_worker cfg w rid db))
          \<and> (e = PendingRollbackError (pending_rollback_error w)
              \<or> (\<exists>m. commit_failed w = Some m \<and> e = DatabaseError m)))
   \<and> (\<forall>qi e. queue_entry_index rid db = Some qi \<and> outcome (attempt cfg w rid qi db) = Inl e
             \<and> \<not> list_ex commit_raised (effects (attempt cfg w rid qi db))
             \<and> commit_failed w = None \<longrightarrow>
          outcome (id_generation_request_worker cfg w rid db) = Inr ()
          \<and> last_attempt_error_code_request
              (que (stored (id_generation_request_worker cfg w rid db)) ! qi) = Some (str_exn e)
          \<and> Commit (stored (id_generation_request_worker cfg w rid db))
              \<in> set (effects (id_generation_request_worker cfg w rid db)))"
proof -
  let ?W = "id_generation_request_worker cfg w rid db"
  have escape: "outcome ?W = Inr ()
      \<or> (list_ex commit_raised (effects ?W)
          \<and> (commit_partner w \<noteq> None \<or> commit_completed w \<noteq> None \<or> commit_failed w \<noteq> None)
          \<and> (outcome ?W = Inl (PendingRollbackError (pending_rollback_error w))
              \<or> (\<exists>m. commit_failed w = Some m \<and> outcome ?W = Inl (DatabaseError m))))"
  proof (cases "queue_entry_index rid db")
    case None
    then show ?thesis by (simp add: id_generation_request_worker_def)
  next
    case (Some qi)
    obtain r db1 t1 where a: "attempt cfg w rid qi db = (r, db1, t1)"
      by (cases "attempt cfg w rid qi db") auto
    show ?thesis
    proof (cases r)
      case (Inr x)
      with Some a show ?thesis by (simp add: worker_found_returns)
    next
      case (Inl e)
      show ?thesis
      proof (cases "list_ex commit_raised t1")
        case True
        with a attempt_commit_raised [of cfg w rid qi db]
        have "commit_partner w \<noteq> None \<or> commit_completed w \<noteq> None" by simp
        with worker_found_session_lost [OF Some a [unfolded Inl] True] True show ?thesis
          by auto
      next
        case False
        show ?thesis
        proof (cases "commit_failed w")
          case None
          from worker_found_handled [OF Some a [unfolded Inl] False None] show ?thesis
            by simp
        next
          case commit: (Some m)
          from worker_found_escapes [OF Some a [unfolded Inl] False commit] commit show ?thesis
            by simp
        qed
      qed
    qed
  qed
  from escape have returns: "commit_partner w = None \<and> commit_completed w = None
        \<and> commit_failed w = None \<longrightarrow> outcome ?W = Inr ()"
    by blast
  from escape have raised: "\<forall>e. outcome ?W = Inl e \<longrightarrow>
          list_ex commit_raised (effects ?W)
          \<and> (e = PendingRollbackError (pending_rollback_error w)
              \<or> (\<exists>m. commit_failed w = Some m \<and> e = DatabaseError m))"
    by auto
  have recorded: "\<forall>qi e. queue_entry_index rid db = Some qi
             \<and> outcome (attempt cfg w rid qi db) = Inl e
             \<and> \<not> list_ex commit_raised (effects (attempt cfg w rid qi db))
             \<and> commit_failed w = None \<longrightarrow>
          outcome ?W = Inr ()
          \<and> last_attempt_error_code_request (que (stored ?W) ! qi) = Some (str_exn e)
          \<and> Commit (stored ?W) \<in> set (effects ?W)"
  proof (intro allI impI, elim conjE)
    fix qi e
    assume q: "queue_entry_index rid db = Some qi"
      and f: "outcome (attempt cfg w rid qi db) = Inl e"
      and n: "\<not> list_ex commit_raised (effects (attempt cfg w rid qi db))"
      and c: "commit_failed w = None"
    from q have l: "qi < length (que db)" by (simp add: queue_entry_index_SomeD)
    obtain db1 t1 where a: "attempt cfg w rid qi db = (Inl e, db1, t1)"
      using f by (cases "attempt cfg w rid qi db") auto
    with n have n1: "\<not> list_ex commit_raised t1" by simp
    from handled_failure [OF q a n1 c] worker_found_handled [OF q a n1 c] l
    show "outcome ?W = Inr ()
          \<and> last_attempt_error_code_request (que (stored ?W) ! qi) = Some (str_exn e)
          \<and> Commit (stored ?W) \<in> set (effects ?W)"
      by simp
  qed
  show ?thesis
    by (rule conjI [OF returns conjI [OF raised recorded]])
qed

theorem only_failed_commit_escapes_witness:
  "commit_partner (world_issuing (JStr ''U1'')) = None
   \<and> commit_completed (world_issuing (JStr ''U1'')) = None
   \<and> commit_failed (world_issuing (JStr ''U1'')) = None
   \<and> queue_entry_index ''R1''
        \<lparr>que = [entry ''R1'' 0 PENDING],
         partners = [partner ''R1'' None, partner ''R2'' (Some ''U1'')]\<rparr> = Some 0
   \<and> outcome (attempt settings3 (world_issuing (JStr ''U1'')) ''R1'' 0
        \<lparr>que = [entry ''R1'' 0 PENDING],
         partners = [partner ''R1'' None, partner ''R2'' (Some ''U1'')]\<rparr>)
       = Inl (UINAlreadyPresent ''U1'')
   \<and> \<not> list_ex commit_raised (effects (attempt settings3 (world_issuing (JStr ''U1'')) ''R1'' 0
        \<lparr>que = [entry ''R1'' 0 PENDING],
         partners = [partner ''R1'' None, partner ''R2'' (Some ''U1'')]\<rparr>))
   \<and> outcome (id_generation_request_worker settings3 (world_issuing (JStr ''U1'')) ''R1''
        \<lparr>que = [entry ''R1'' 0 PENDING],
         partners = [partner ''R1'' None, partner ''R2'' (Some ''U1'')]\<rparr>) = Inr ()
   \<and> last_attempt_error_code_request
        (que (stored (id_generation_request_worker settings3 (world_issuing (JStr ''U1'')) ''R1''
           \<lparr>que = [entry ''R1'' 0 PENDING],
            partners = [partner ''R1'' None, partner ''R2'' (Some ''U1'')]\<rparr>)) ! 0)
       = Some ''MOSIP ID U1 is already present in res_partner.unique_id''"
proof -
  let ?db = "\<lparr>que = [entry ''R1'' 0 PENDING],
         partners = [partner ''R1'' None, partner ''R2'' (Some ''U1'')]\<rparr>"
  let ?w = "world_issuing (JStr ''U1'')"
  have h1: "commit_partner ?w = None" and h2: "commit_completed ?w = None"
    and h3: "commit_failed ?w = None"
    by (simp_all add: world_issuing_def)
  have h4: "queue_entry_index ''R1'' ?db = Some 0"
    by (simp add: queue_entry_index_def entry_def)
  have h5: "outcome (attempt settings3 ?w ''R1'' 0 ?db) = Inl (UINAlreadyPresent ''U1'')"
    by (simp add: worker_defs sample_defs)
  have h6: "\<not> list_ex commit_raised (effects (attempt settings3 ?w ''R1'' 0 ?db))"
    by (simp add: worker_defs sample_defs)
  note t = only_failed_commit_escapes [of ?w settings3 "''R1''" ?db]
  from t h1 h2 h3 have a: "outcome (id_generation_request_worker settings3 ?w ''R1'' ?db) = Inr ()"
    by blast
  from t h3 h4 h5 h6 have "last_attempt_error_code_request
        (que (stored (id_generation_request_worker settings3 ?w ''R1'' ?db)) ! 0)
       = Some (str_exn (UINAlreadyPresent ''U1''))"
    by blast
  then have b: "last_attempt_error_code_request
        (que (stored (id_generation_request_worker settings3 ?w ''R1'' ?db)) ! 0)
       = Some ''MOSIP ID U1 is already present in res_partner.unique_id''"
    by simp
  from h1 h2 h3 h4 h5 h6 a b show ?thesis by simp
qed

subsection \<open>The bookkeeping of a failed attempt\<close>

text \<open>
  C3. When the queue row is found and PENDING, a step of the \<^verbatim>\<open>try\<close> block other
  than a commit raises \<open>e\<close> (no usable token, a status other than 200, a body that cannot
  be parsed or taken apart, a falsy UIN, no partner row, a UIN already present) and the
  handler's commit commits, the worker returns and the queue row differs from the stored
  one in exactly this: the attempt count is one more, the time is the handler's clock
  reading, the error detail is \<^verbatim>\<open>str(e)\<close>, and the status is FAILED if and only if
  the new count is at least the configured maximum, and PENDING otherwise.
\<close>

theorem failure_bookkeeping:
  assumes "queue_entry_index rid db = Some qi"
    and "id_generation_request_status (que db ! qi) = PENDING"
    and "outcome (attempt cfg w rid qi db) = Inl e"
    and "\<not> list_ex commit_raised (effects (attempt cfg w rid qi db))"
    and "commit_failed w = None"
  shows "outcome (id_generation_request_worker cfg w rid db) = Inr ()
     \<and> que (stored (id_generation_request_worker cfg w rid db)) =
         (que db)[qi := (que db ! qi)
           \<lparr>number_of_attempts_request := number_of_attempts_request (que db ! qi) + 1,
            last_attempt_datetime_request := Some (utcnow_failed w),
            last_attempt_error_code_request := Some (str_exn e),
            id_generation_request_status :=
              (if max_id_generation_request_attempts cfg
                    \<le> number_of_attempts_request (que db ! qi) + 1
               then FAILED else PENDING)\<rparr>]"
proof -
  obtain db1 t1 where a: "attempt cfg w rid qi db = (Inl e, db1, t1)"
    using assms(3) by (cases "attempt cfg w rid qi db") auto
  with assms(4) have n: "\<not> list_ex commit_raised t1" by simp
  from handled_failure [OF assms(1) a n assms(5)] assms(2) show ?thesis
    by simp
qed

theorem failure_bookkeeping_witness:
  "queue_entry_index ''R1''
      \<lparr>que = [entry ''R1'' 2 PENDING], partners = [partner ''R1'' None]\<rparr> = Some 0
   \<and> id_generation_request_status
       (que \<lparr>que = [entry ''R1'' 2 PENDING], partners = [partner ''R1'' None]\<rparr> ! 0) = PENDING
   \<and> outcome (attempt settings3 world_without_token ''R1'' 0
        \<lparr>que = [entry ''R1'' 2 PENDING], partners = [partner ''R1'' None]\<rparr>)
       = Inl AccessTokenMissing
   \<and> \<not> list_ex commit_raised (effects (attempt settings3 world_without_token ''R1'' 0
        \<lparr>que = [entry ''R1'' 2 PENDING], partners = [partner ''R1'' None]\<rparr>))
   \<and> commit_failed world_without_token = None
   \<and> que (stored (id_generation_request_worker settings3 world_without_token ''R1''
        \<lparr>que = [entry ''R1'' 2 PENDING], partners = [partner ''R1'' None]\<rparr>)) =
       [\<lparr>registrant_id = ''R1'', number_of_attempts_request = 3,
         id_generation_request_status = FAILED,
         id_generation_update_status = UPDATE_OTHER ''NOT_APPLICABLE'',
         last_attempt_datetime_request = Some 1001,
         last_attempt_error_code_request =
           Some ''Failed to retrieve access token from token response''\<rparr>]"
proof -
  let ?db = "\<lparr>que = [entry ''R1'' 2 PENDING], partners = [partner ''R1'' None]\<rparr>"
  have h1: "queue_entry_index ''R1'' ?db = Some 0"
    by (simp add: queue_entry_index_def entry_def)
  have h2: "id_generation_request_status (que ?db ! 0) = PENDING"
    by (simp add: entry_def)
  have h3: "outcome (attempt settings3 world_without_token ''R1'' 0 ?db) = Inl AccessTokenMissing"
    by (simp add: attempt_def request_uin_def sample_defs)
  have h4: "\<not> list_ex commit_raised (effects (attempt settings3 world_without_token ''R1'' 0 ?db))"
    by (simp add: attempt_def request_uin_def sample_defs)
  have h5: "commit_failed world_without_token = None"
    by (simp add: sample_defs)
  from failure_bookkeeping [OF h1 h2 h3 h4 h5]
  have "que (stored (id_generation_request_worker settings3 world_without_token ''R1'' ?db)) =
       [\<lparr>registrant_id = ''R1'', number_of_attempts_request = 3,
         id_generation_request_status = FAILED,
         id_generation_update_status = UPDATE_OTHER ''NOT_APPLICABLE'',
         last_attempt_datetime_request = Some 1001,
         last_attempt_error_code_request =
           Some ''Failed to retrieve access token from token response''\<rparr>]"
    by (simp add: sample_defs)
  with h1 h2 h3 h4 h5 show ?thesis by simp
qed

subsection \<open>Rows in a terminal state\<close>

text \<open>
  C2 fails on the code: the worker never reads the status of the row it finds. A
  COMPLETED row with two attempts, maximum 3, no token: the invocation counts a third
  attempt and sets the row to FAILED.
\<close>

theorem terminal_entry_counterexample:
  "queue_entry_index ''R1''
      \<lparr>que = [entry ''R1'' 2 COMPLETED], partners = [partner ''R1'' (Some ''U1'')]\<rparr> = Some 0
   \<and> id_generation_request_status (entry ''R1'' 2 COMPLETED) = COMPLETED
   \<and> number_of_attempts_request (entry ''R1'' 2 COMPLETED) = 2
   \<and> id_generation_request_status
        (que (stored (id_generation_request_worker settings3 world_without_token ''R1''
           \<lparr>que = [entry ''R1'' 2 COMPLETED],
            partners = [partner ''R1'' (Some ''U1'')]\<rparr>)) ! 0) = FAILED
   \<and> number_of_attempts_request
        (que (stored (id_generation_request_worker settings3 world_without_token ''R1''
           \<lparr>que = [entry ''R1'' 2 COMPLETED],
            partners = [partner ''R1'' (Some ''U1'')]\<rparr>)) ! 0) = 3"
  by (simp add: worker_defs sample_defs)

text \<open>
  C2, as the code has it. A row that is COMPLETED or FAILED is processed like any other
  row. Afterwards it is still COMPLETED or FAILED (not necessarily the same of the two,
  and never PENDING), its attempt count is not smaller than before, and it is exactly one
  more unless a commit of the invocation raised.
\<close>

theorem terminal_entry_stays_terminal:
  assumes "queue_entry_index rid db = Some qi"
    and "id_generation_request_status (que db ! qi) = COMPLETED
         \<or> id_generation_request_status (que db ! qi) = FAILED"
  shows "(id_generation_request_status
            (que (stored (id_generation_request_worker cfg w rid db)) ! qi) = COMPLETED
          \<or> id_generation_request_status
            (que (stored (id_generation_request_worker cfg w rid db)) ! qi) = FAILED)
     \<and> number_of_attempts_request (que db ! qi)
         \<le> number_of_attempts_request
              (que (stored (id_generation_request_worker cfg w rid db)) ! qi)
     \<and> (\<not> list_ex commit_raised (effects (id_generation_request_worker cfg w rid db)) \<longrightarrow>
          number_of_attempts_request
              (que (stored (id_generation_request_worker cfg w rid db)) ! qi)
            = number_of_attempts_request (que db ! qi) + 1)"
proof -
  from assms(1) have l: "qi < length (que db)" by (simp add: queue_entry_index_SomeD)
  from worker_que_cases [OF assms(1), of cfg w] l assms(2) show ?thesis
    by (auto simp: status_failed_entry split: if_splits)
qed

theorem terminal_entry_stays_terminal_witness:
  "queue_entry_index ''R1''
      \<lparr>que = [entry ''R1'' 5 FAILED], partners = [partner ''R1'' None]\<rparr> = Some 0
   \<and> id_generation_request_status
        (que \<lparr>que = [entry ''R1'' 5 FAILED], partners = [partner ''R1'' None]\<rparr> ! 0) = FAILED
   \<and> id_generation_request_status
        (que (stored (id_generation_request_worker settings3 (world_issuing (JStr ''U9'')) ''R1''
           \<lparr>que = [entry ''R1'' 5 FAILED], partners = [partner ''R1'' None]\<rparr>)) ! 0) = COMPLETED
   \<and> number_of_attempts_request
        (que (stored (id_generation_request_worker settings3 (world_issuing (JStr ''U9'')) ''R1''
           \<lparr>que = [entry ''R1'' 5 FAILED], partners = [partner ''R1'' None]\<rparr>)) ! 0) = 6
   \<and> \<not> list_ex commit_raised
        (effects (id_generation_request_worker settings3 (world_issuing (JStr ''U9'')) ''R1''
           \<lparr>que = [entry ''R1'' 5 FAILED], partners = [partner ''R1'' None]\<rparr>))"
proof -
  have h1: "queue_entry_index ''R1''
      \<lparr>que = [entry ''R1'' 5 FAILED], partners = [partner ''R1'' None]\<rparr> = Some 0"
    by (simp add: queue_entry_index_def entry_def)
  have h2: "id_generation_request_status
        (que \<lparr>que = [entry ''R1'' 5 FAILED], partners = [partner ''R1'' None]\<rparr> ! 0) = COMPLETED
     \<or> id_generation_request_status
        (que \<lparr>que = [entry ''R1'' 5 FAILED], partners = [partner ''R1'' None]\<rparr> ! 0) = FAILED"
    by (simp add: entry_def)
  have h3: "\<not> list_ex commit_raised
        (effects (id_generation_request_worker settings3 (world_issuing (JStr ''U9'')) ''R1''
           \<lparr>que = [entry ''R1'' 5 FAILED], partners = [partner ''R1'' None]\<rparr>))"
    by (simp add: worker_defs sample_defs)
  have h4: "id_generation_request_status
        (que (stored (id_generation_request_worker settings3 (world_issuing (JStr ''U9'')) ''R1''
           \<lparr>que = [entry ''R1'' 5 FAILED], partners = [partner ''R1'' None]\<rparr>)) ! 0) = COMPLETED"
    by (simp add: worker_defs sample_defs)
  show ?thesis
    using h1 h3 h4 terminal_entry_stays_terminal [OF h1 h2, of settings3 "world_issuing (JStr ''U9'')"]
    by (simp add: entry_def)
qed

subsection \<open>Assignment and completion\<close>

text \<open>
  C4 fails on the code where the target partner row itself already holds the issued UIN:
  the check of line 79 looks for any row with that UIN, the target included. Row R1 holds
  U1, no other row does, the authority issues U1: the queue row is not completed, a
  failure is counted.
\<close>

theorem own_uin_blocks_completion_counterexample:
  "queue_entry_index ''R1''
      \<lparr>que = [entry ''R1'' 1 PENDING],
       partners = [partner ''R1'' (Some ''U1''), partner ''R2'' None]\<rparr> = Some 0
   \<and> fst (request_uin settings3 (world_issuing (JStr ''U1''))) = Inr (JStr ''U1'')
   \<and> res_partner_index ''R1''
      \<lparr>que = [entry ''R1'' 1 PENDING],
       partners = [partner ''R1'' (Some ''U1''), partner ''R2'' None]\<rparr> = Some 0
   \<and> \<not> held_by_other_row 0 ''U1''
      \<lparr>que = [entry ''R1'' 1 PENDING],
       partners = [partner ''R1'' (Some ''U1''), partner ''R2'' None]\<rparr>
   \<and> \<not> list_ex commit_raised
        (effects (id_generation_request_worker settings3 (world_issuing (JStr ''U1'')) ''R1''
           \<lparr>que = [entry ''R1'' 1 PENDING],
            partners = [partner ''R1'' (Some ''U1''), partner ''R2'' None]\<rparr>))
   \<and> que (stored (id_generation_request_worker settings3 (world_issuing (JStr ''U1'')) ''R1''
        \<lparr>que = [entry ''R1'' 1 PENDING],
         partners = [partner ''R1'' (Some ''U1''), partner ''R2'' None]\<rparr>)) =
       [\<lparr>registrant_id = ''R1'', number_of_attempts_request = 2,
         id_generation_request_status = PENDING,
         id_generation_update_status = UPDATE_OTHER ''NOT_APPLICABLE'',
         last_attempt_datetime_request = Some 1001,
         last_attempt_error_code_request =
           Some ''MOSIP ID U1 is already present in res_partner.unique_id''\<rparr>]"
  by (simp add: worker_defs sample_defs held_by_other_row_def)

text \<open>
  C4, as the code has it. When the queue row is found, a token is obtained, the authority
  returns the UIN \<open>u\<close>, a string the driver accepts, the partner row exists, no partner
  row at all (the target included) holds \<open>u\<close>, and the two commits commit, the worker writes \<open>u\<close> into the
  partner row, counts one attempt, sets the request status to COMPLETED and the update
  status to PENDING, stamps the time and clears the error detail. The two changes are
  committed one after the other: the first commit stores the partner row with the queue
  table still as it was, the second stores the queue row.
\<close>

theorem issued_uin_is_assigned_and_completed:
  assumes q: "queue_entry_index rid db = Some qi"
    and u: "fst (request_uin cfg w) = Inr (JStr u)"
    and p: "res_partner_index rid db = Some pi"
    and free: "\<forall>p\<in>set (partners db). unique_id p \<noteq> Some u"
    and acc: "driver_accepts u"
    and c1: "commit_partner w = None"
    and c2: "commit_completed w = None"
  shows "outcome (id_generation_request_worker cfg w rid db) = Inr ()
     \<and> partners (stored (id_generation_request_worker cfg w rid db)) =
         (partners db)[pi := (partners db ! pi)\<lparr>unique_id := Some u\<rparr>]
     \<and> que (stored (id_generation_request_worker cfg w rid db)) =
         (que db)[qi := (que db ! qi)
           \<lparr>number_of_attempts_request := number_of_attempts_request (que db ! qi) + 1,
            id_generation_request_status := COMPLETED,
            id_generation_update_status := UPDATE_PENDING,
            last_attempt_datetime_request := Some (utcnow_completed w),
            last_attempt_error_code_request := None\<rparr>]
     \<and> commits (effects (id_generation_request_worker cfg w rid db)) =
         [db\<lparr>partners := (partners db)[pi := (partners db ! pi)\<lparr>unique_id := Some u\<rparr>]\<rparr>,
          stored (id_generation_request_worker cfg w rid db)]"
proof -
  let ?db1 = "db\<lparr>partners := (partners db)[pi := (partners db ! pi)\<lparr>unique_id := Some u\<rparr>]\<rparr>"
  let ?db2 = "?db1\<lparr>que := (que db)[qi := completed_entry w (que db ! qi)]\<rparr>"
  from free have e: "existing_partner_with_uin u db = None"
    by (simp add: existing_partner_with_uin_None_iff)
  have a: "attempt cfg w rid qi db =
      (Inr (), ?db2, snd (request_uin cfg w) @ [Commit ?db1] @
         [Commit ?db2, Info (''ID generation request completed for registrant_id: '' @ rid)])"
    using c2 by (simp add: attempt_assigned [OF u p e acc c1] complete_request_def Let_def)
  show ?thesis
    by (simp add: worker_found_returns [OF q a] commits_append request_uin_commits
        completed_entry_def)
qed

theorem issued_uin_is_assigned_and_completed_witness:
  "queue_entry_index ''R1'' \<lparr>que = [entry ''R1'' 0 PENDING], partners = [partner ''R1'' None]\<rparr> = Some 0
   \<and> fst (request_uin settings3 (world_issuing (JStr ''U1''))) = Inr (JStr ''U1'')
   \<and> res_partner_index ''R1'' \<lparr>que = [entry ''R1'' 0 PENDING], partners = [partner ''R1'' None]\<rparr> = Some 0
   \<and> existing_partner_with_uin ''U1'' \<lparr>que = [entry ''R1'' 0 PENDING], partners = [partner ''R1'' None]\<rparr> = None
   \<and> driver_accepts ''U1''
   \<and> commit_partner (world_issuing (JStr ''U1'')) = None
   \<and> commit_completed (world_issuing (JStr ''U1'')) = None
   \<and> outcome (id_generation_request_worker settings3 (world_issuing (JStr ''U1'')) ''R1''
        \<lparr>que = [entry ''R1'' 0 PENDING], partners = [partner ''R1'' None]\<rparr>) = Inr ()
   \<and> partners (stored (id_generation_request_worker settings3 (world_issuing (JStr ''U1'')) ''R1''
        \<lparr>que = [entry ''R1'' 0 PENDING], partners = [partner ''R1'' None]\<rparr>)) =
       [\<lparr>id' = ''R1'', unique_id = Some ''U1''\<rparr>]
   \<and> que (stored (id_generation_request_worker settings3 (world_issuing (JStr ''U1'')) ''R1''
        \<lparr>que = [entry ''R1'' 0 PENDING], partners = [partner ''R1'' None]\<rparr>)) =
       [\<lparr>registrant_id = ''R1'', number_of_attempts_request = 1,
         id_generation_request_status = COMPLETED,
         id_generation_update_status = UPDATE_PENDING,
         last_attempt_datetime_request = Some 1000,
         last_attempt_error_code_request = None\<rparr>]
   \<and> length (commits (effects (id_generation_request_worker settings3 (world_issuing (JStr ''U1'')) ''R1''
        \<lparr>que = [entry ''R1'' 0 PENDING], partners = [partner ''R1'' None]\<rparr>))) = 2"
proof -
  let ?db = "\<lparr>que = [entry ''R1'' 0 PENDING], partners = [partner ''R1'' None]\<rparr>"
  let ?w = "world_issuing (JStr ''U1'')"
  have h1: "queue_entry_index ''R1'' ?db = Some 0"
    by (simp add: queue_entry_index_def entry_def)
  have h2: "fst (request_uin settings3 ?w) = Inr (JStr ''U1'')"
    by (simp add: request_uin_def sample_defs)
  have h3: "res_partner_index ''R1'' ?db = Some 0"
    by (simp add: res_partner_index_def partner_def)
  have h4: "\<forall>p\<in>set (partners ?db). unique_id p \<noteq> Some ''U1''"
    by (simp add: partner_def)
  have h4': "existing_partner_with_uin ''U1'' ?db = None"
    by (simp add: existing_partner_with_uin_def partner_def)
  have h5: "commit_partner ?w = None" and h6: "commit_completed ?w = None"
    by (simp_all add: sample_defs)
  have h7: "driver_accepts ''U1''" by (simp add: driver_accepts_def)
  note t = issued_uin_is_assigned_and_completed [OF h1 h2 h3 h4 h7 h5 h6]
  from t have "outcome (id_generation_request_worker settings3 ?w ''R1'' ?db) = Inr ()"
    by simp
  moreover from t have "partners (stored (id_generation_request_worker settings3 ?w ''R1'' ?db)) =
       [\<lparr>id' = ''R1'', unique_id = Some ''U1''\<rparr>]"
    by (simp add: partner_def)
  moreover from t have "que (stored (id_generation_request_worker settings3 ?w ''R1'' ?db)) =
       [\<lparr>registrant_id = ''R1'', number_of_attempts_request = 1,
         id_generation_request_status = COMPLETED,
         id_generation_update_status = UPDATE_PENDING,
         last_attempt_datetime_request = Some 1000,
         last_attempt_error_code_request = None\<rparr>]"
    by (simp add: sample_defs)
  moreover from t have "length (commits (effects (id_generation_request_worker settings3 ?w ''R1'' ?db))) = 2"
    by simp
  ultimately show ?thesis
    using h1 h2 h3 h4' h5 h6 h7 by simp
qed

subsection \<open>The UIN that is already present\<close>

text \<open>
  C5 fails on the code: the UIN held by the target partner row alone is a collision. Row
  R1 holds U5, no other row does, the authority issues U5 for R1: the
  \<^verbatim>\<open>try\<close> block raises the exception of line 84.
\<close>

theorem own_uin_is_a_collision_counterexample:
  "outcome (attempt settings3 (world_issuing (JStr ''U5'')) ''R1'' 0
      \<lparr>que = [entry ''R1'' 0 PENDING],
       partners = [partner ''R0'' None, partner ''R1'' (Some ''U5'')]\<rparr>)
     = Inl (UINAlreadyPresent ''U5'')
   \<and> res_partner_index ''R1''
      \<lparr>que = [entry ''R1'' 0 PENDING],
       partners = [partner ''R0'' None, partner ''R1'' (Some ''U5'')]\<rparr> = Some 1
   \<and> \<not> held_by_other_row 1 ''U5''
      \<lparr>que = [entry ''R1'' 0 PENDING],
       partners = [partner ''R0'' None, partner ''R1'' (Some ''U5'')]\<rparr>"
  by (simp add: worker_defs sample_defs held_by_other_row_def)

text \<open>
  C5, as the code has it. The \<^verbatim>\<open>try\<close> block raises the exception of line 84 for
  the UIN \<open>u\<close> if and only if a token was obtained and the authority returned \<open>u\<close>, the
  partner row of the registrant exists, and some partner row, the registrant's own
  included, holds \<open>u\<close>.
\<close>

theorem uin_already_present_iff:
  "outcome (attempt cfg w rid qi db) = Inl (UINAlreadyPresent u) \<longleftrightarrow>
     fst (request_uin cfg w) = Inr (JStr u)
     \<and> res_partner_index rid db \<noteq> None
     \<and> (\<exists>p\<in>set (partners db). unique_id p = Some u)"
proof (cases "request_uin cfg w")
  case (Pair r t)
  show ?thesis
  proof (cases r)
    case (Inl e)
    with Pair request_uin_not_present [of cfg w u] show ?thesis
      by (simp add: attempt_def)
  next
    case (Inr uin)
    obtain r1 db1 t1 where a: "assign_uin w rid uin db = (r1, db1, t1)"
      by (cases "assign_uin w rid uin db") auto
    show ?thesis
    proof (cases r1)
      case (Inl e)
      with Pair Inr a assign_uin_present_iff [of w rid uin db u] show ?thesis
        by (auto simp: attempt_def existing_partner_with_uin_None_iff)
    next
      case Inr2: (Inr x)
      from a Inr2 assign_uin_present_iff [of w rid uin db u]
      have n: "\<not> (uin = JStr u \<and> res_partner_index rid db \<noteq> None \<and> existing_partner_with_uin u db \<noteq> None)"
        by simp
      obtain r2 db2 t2 where c: "complete_request w rid qi db1 = (r2, db2, t2)"
        by (cases "complete_request w rid qi db1") auto
      with complete_request_not_present [of w rid qi db1 u] have "r2 \<noteq> Inl (UINAlreadyPresent u)"
        by simp
      with Pair Inr a Inr2 c n show ?thesis
        by (auto simp: attempt_def existing_partner_with_uin_None_iff)
    qed
  qed
qed

theorem uin_already_present_iff_witness:
  "outcome (attempt settings3 (world_issuing (JStr ''U7'')) ''R1'' 0
      \<lparr>que = [entry ''R1'' 0 PENDING],
       partners = [partner ''R1'' None, partner ''R2'' (Some ''U7'')]\<rparr>)
     = Inl (UINAlreadyPresent ''U7'')"
proof -
  have "fst (request_uin settings3 (world_issuing (JStr ''U7''))) = Inr (JStr ''U7'')"
    by (simp add: request_uin_def sample_defs)
  moreover have "res_partner_index ''R1'' \<lparr>que = [entry ''R1'' 0 PENDING],
       partners = [partner ''R1'' None, partner ''R2'' (Some ''U7'')]\<rparr> \<noteq> None"
    by (simp add: res_partner_index_def partner_def)
  moreover have "\<exists>p\<in>set (partners \<lparr>que = [entry ''R1'' 0 PENDING],
       partners = [partner ''R1'' None, partner ''R2'' (Some ''U7'')]\<rparr>). unique_id p = Some ''U7''"
    by (simp add: partner_def)
  ultimately have "fst (request_uin settings3 (world_issuing (JStr ''U7''))) = Inr (JStr ''U7'')
     \<and> res_partner_index ''R1'' \<lparr>que = [entry ''R1'' 0 PENDING],
       partners = [partner ''R1'' None, partner ''R2'' (Some ''U7'')]\<rparr> \<noteq> None
     \<and> (\<exists>p\<in>set (partners \<lparr>que = [entry ''R1'' 0 PENDING],
       partners = [partner ''R1'' None, partner ''R2'' (Some ''U7'')]\<rparr>). unique_id p = Some ''U7'')"
    by blast
  then show ?thesis
    by (rule uin_already_present_iff [THEN iffD2])
qed

subsection \<open>Overwriting a held UIN\<close>



subsection \<open>Replay after a partial run\<close>




subsection \<open>A falsy UIN\<close>

text \<open>
  C9. When the authority answers 200 with a body whose \<^verbatim>\<open>response\<close> has a
  \<^verbatim>\<open>uin\<close> that is falsy (the empty string, null, zero, false, an empty list or
  dict), the worker raises the exception of line 66: the partner table is unchanged, the
  only commit is the handler's, and the queue row counts a failed attempt with the text
  \<^verbatim>\<open>UIN not received from MOSIP\<close>.
\<close>

theorem falsy_uin_is_counted_failure:
  assumes q: "queue_entry_index rid db = Some qi"
    and tok: "get_oauth_token w = Inr (Some tok)" and tok_ne: "tok \<noteq> []"
    and resp: "httpx_get w = Inr resp" and ok: "status_code resp = 200"
    and body: "json resp = Inr (JObj kvs)"
    and r: "map_of kvs ''response'' = Some (JObj kvs2)"
    and uin: "map_of kvs2 ''uin'' = Some uin"
    and falsy: "\<not> truthy uin"
    and c: "commit_failed w = None"
  shows "outcome (id_generation_request_worker cfg w rid db) = Inr ()
     \<and> partners (stored (id_generation_request_worker cfg w rid db)) = partners db
     \<and> commits (effects (id_generation_request_worker cfg w rid db))
         = [stored (id_generation_request_worker cfg w rid db)]
     \<and> que (stored (id_generation_request_worker cfg w rid db)) =
         (que db)[qi := (que db ! qi)
           \<lparr>number_of_attempts_request := number_of_attempts_request (que db ! qi) + 1,
            last_attempt_datetime_request := Some (utcnow_failed w),
            last_attempt_error_code_request := Some ''UIN not received from MOSIP'',
            id_generation_request_status :=
              (if max_id_generation_request_attempts cfg
                    \<le> number_of_attempts_request (que db ! qi) + 1
               then FAILED else id_generation_request_status (que db ! qi))\<rparr>]"
proof -
  have "fst (request_uin cfg w) = Inl UINNotReceived"
    using tok tok_ne resp ok body r uin falsy by (simp add: request_uin_def Let_def)
  then have a: "attempt cfg w rid qi db = (Inl UINNotReceived, db, snd (request_uin cfg w))"
    by (cases "request_uin cfg w") (simp add: attempt_def)
  from handled_failure [OF q a request_uin_no_commit_raised c]
    worker_found_handled [OF q a request_uin_no_commit_raised c]
  show ?thesis
    by (simp add: commits_append request_uin_commits)
qed

theorem falsy_uin_is_counted_failure_witness:
  "queue_entry_index ''R1'' \<lparr>que = [entry ''R1'' 0 PENDING], partners = [partner ''R1'' None]\<rparr> = Some 0
   \<and> get_oauth_token (world_issuing (JStr '''')) = Inr (Some ''tok'')
   \<and> ''tok'' \<noteq> ''''
   \<and> httpx_get (world_issuing (JStr '''')) = Inr \<lparr>status_code = 200, json = Inr (mosip_body (JStr ''''))\<rparr>
   \<and> mosip_body (JStr '''') = JObj [(''id'', JNull), (''response'', JObj [(''uin'', JStr '''')])]
   \<and> \<not> truthy (JStr '''')
   \<and> commit_failed (world_issuing (JStr '''')) = None
   \<and> outcome (id_generation_request_worker settings3 (world_issuing (JStr '''')) ''R1''
        \<lparr>que = [entry ''R1'' 0 PENDING], partners = [partner ''R1'' None]\<rparr>) = Inr ()
   \<and> partners (stored (id_generation_request_worker settings3 (world_issuing (JStr '''')) ''R1''
        \<lparr>que = [entry ''R1'' 0 PENDING], partners = [partner ''R1'' None]\<rparr>))
       = [\<lparr>id' = ''R1'', unique_id = None\<rparr>]
   \<and> que (stored (id_generation_request_worker settings3 (world_issuing (JStr '''')) ''R1''
        \<lparr>que = [entry ''R1'' 0 PENDING], partners = [partner ''R1'' None]\<rparr>)) =
       [\<lparr>registrant_id = ''R1'', number_of_attempts_request = 1,
         id_generation_request_status = PENDING,
         id_generation_update_status = UPDATE_OTHER ''NOT_APPLICABLE'',
         last_attempt_datetime_request = Some 1001,
         last_attempt_error_code_request = Some ''UIN not received from MOSIP''\<rparr>]"
proof -
  let ?db = "\<lparr>que = [entry ''R1'' 0 PENDING], partners = [partner ''R1'' None]\<rparr>"
  let ?w = "world_issuing (JStr '''')"
  have h1: "queue_entry_index ''R1'' ?db = Some 0"
    by (simp add: queue_entry_index_def entry_def)
  have h2: "get_oauth_token ?w = Inr (Some ''tok'')" by (simp add: sample_defs)
  have h3: "''tok'' \<noteq> ''''" by simp
  have h4: "httpx_get ?w = Inr \<lparr>status_code = 200, json = Inr (mosip_body (JStr ''''))\<rparr>"
    by (simp add: world_issuing_def)
  have h5: "status_code \<lparr>status_code = 200, json = Inr (mosip_body (JStr ''''))\<rparr> = 200" by simp
  have h6: "json \<lparr>status_code = 200, json = Inr (mosip_body (JStr ''''))\<rparr>
      = Inr (JObj [(''id'', JNull), (''response'', JObj [(''uin'', JStr '''')])])"
    by (simp add: mosip_body_def)
  have h7: "map_of [(''id'', JNull), (''response'', JObj [(''uin'', JStr '''')])] ''response''
      = Some (JObj [(''uin'', JStr '''')])" by simp
  have h8: "map_of [(''uin'', JStr '''')] ''uin'' = Some (JStr '''')" by simp
  have h9: "\<not> truthy (JStr '''')" by simp
  have h10: "commit_failed ?w = None" by (simp add: sample_defs)
  note t = falsy_uin_is_counted_failure [OF h1 h2 h3 h4 h5 h6 h7 h8 h9 h10, of settings3]
  from t have a: "outcome (id_generation_request_worker settings3 ?w ''R1'' ?db) = Inr ()"
    by simp
  from t have b: "partners (stored (id_generation_request_worker settings3 ?w ''R1'' ?db))
       = [\<lparr>id' = ''R1'', unique_id = None\<rparr>]"
    by (simp add: partner_def)
  from t have c: "que (stored (id_generation_request_worker settings3 ?w ''R1'' ?db)) =
       [\<lparr>registrant_id = ''R1'', number_of_attempts_request = 1,
         id_generation_request_status = PENDING,
         id_generation_update_status = UPDATE_OTHER ''NOT_APPLICABLE'',
         last_attempt_datetime_request = Some 1001,
         last_attempt_error_code_request = Some ''UIN not received from MOSIP''\<rparr>]"
    by (simp add: sample_defs)
  from h1 h2 h3 h4 h6 h9 h10 a b c show ?thesis
    by (simp add: mosip_body_def)
qed

subsection \<open>The attempt count\<close>

text \<open>
  C8. Over any sequence of invocations for a registrant whose queue row is found, the
  row stays where it is and its attempt count never goes down; and one invocation in
  which no commit raises counts exactly one attempt, whether the attempt completes or
  fails.
\<close>

theorem attempts_never_decrease_and_count_once:
  assumes "queue_entry_index rid db = Some qi"
  shows "queue_entry_index rid (invocations cfg rid ws db) = Some qi
     \<and> number_of_attempts_request (que db ! qi)
         \<le> number_of_attempts_request (que (invocations cfg rid ws db) ! qi)
     \<and> (\<not> list_ex commit_raised (effects (id_generation_request_worker cfg w rid db)) \<longrightarrow>
          number_of_attempts_request
              (que (stored (id_generation_request_worker cfg w rid db)) ! qi)
            = number_of_attempts_request (que db ! qi) + 1)"
proof -
  from assms have l: "qi < length (que db)" by (simp add: queue_entry_index_SomeD)
  from worker_que_cases [OF assms, of cfg w] l
  have "\<not> list_ex commit_raised (effects (id_generation_request_worker cfg w rid db)) \<longrightarrow>
          number_of_attempts_request
              (que (stored (id_generation_request_worker cfg w rid db)) ! qi)
            = number_of_attempts_request (que db ! qi) + 1"
    by auto
  with assms l show ?thesis
    by (simp add: invocations_attempts_mono invocations_queue_entry_index)
qed

theorem attempts_never_decrease_and_count_once_witness:
  "queue_entry_index ''R1''
      \<lparr>que = [entry ''R0'' 7 FAILED, entry ''R1'' 0 PENDING], partners = [partner ''R1'' None]\<rparr> = Some 1
   \<and> number_of_attempts_request
        (que (invocations settings3 ''R1''
               [world_without_token, world_issuing (JStr ''''), world_issuing (JStr ''U1'')]
               \<lparr>que = [entry ''R0'' 7 FAILED, entry ''R1'' 0 PENDING],
                partners = [partner ''R1'' None]\<rparr>) ! 1) = 3
   \<and> \<not> list_ex commit_raised
        (effects (id_generation_request_worker settings3 world_without_token ''R1''
           \<lparr>que = [entry ''R0'' 7 FAILED, entry ''R1'' 0 PENDING],
            partners = [partner ''R1'' None]\<rparr>))
   \<and> number_of_attempts_request
        (que (stored (id_generation_request_worker settings3 world_without_token ''R1''
           \<lparr>que = [entry ''R0'' 7 FAILED, entry ''R1'' 0 PENDING],
            partners = [partner ''R1'' None]\<rparr>)) ! 1) = 1"
proof -
  let ?db = "\<lparr>que = [entry ''R0'' 7 FAILED, entry ''R1'' 0 PENDING],
                partners = [partner ''R1'' None]\<rparr>"
  have h1: "queue_entry_index ''R1'' ?db = Some 1"
    by (simp add: queue_entry_index_def entry_def)
  have h2: "\<not> list_ex commit_raised
        (effects (id_generation_request_worker settings3 world_without_token ''R1'' ?db))"
    by (simp add: worker_defs sample_defs)
  have h3: "number_of_attempts_request
        (que (invocations settings3 ''R1''
               [world_without_token, world_issuing (JStr ''''), world_issuing (JStr ''U1'')] ?db) ! 1) = 3"
    by (simp add: worker_defs sample_defs)
  from attempts_never_decrease_and_count_once [OF h1, of settings3 "[]" world_without_token] h2
  have "number_of_attempts_request
        (que (stored (id_generation_request_worker settings3 world_without_token ''R1'' ?db)) ! 1) = 1"
    by (simp add: entry_def)
  with h1 h2 h3 show ?thesis by simp
qed

end
